theory Spec2Isabelle
  imports Main
begin

section \<open>Python text\<close>

text \<open>
  A Python \<^verbatim>\<open>str\<close> is a sequence of code points. It is modelled as a \<^typ>\<open>string\<close>, each
  \<^typ>\<open>char\<close> standing for the code point of the same number (0 to 255, Latin-1). Every
  code point that the validator's patterns, the sanitiser's character class and the fixed
  messages of the program mention lies in that range. \<open>length\<close> is Python's \<^verbatim>\<open>len\<close>.
\<close>

abbreviation bslash :: string where "bslash \<equiv> [CHR 0x5C]"
abbreviation a_acute :: string where "a_acute \<equiv> [CHR 0xE1]"
abbreviation o_acute :: string where "o_acute \<equiv> [CHR 0xF3]"
abbreviation U_acute :: string where "U_acute \<equiv> [CHR 0xDA]"
abbreviation O_acute :: string where "O_acute \<equiv> [CHR 0xD3]"
abbreviation dquote :: string where "dquote \<equiv> [CHR 0x22]"
abbreviation squote :: string where "squote \<equiv> [CHR 0x27]"

definition code_point :: "char \<Rightarrow> nat" where
  "code_point c = of_char c"

text \<open>\<^verbatim>\<open>str.isspace\<close> on one code point below 256; also the class \<^verbatim>\<open>\s\<close> of a str pattern.\<close>

definition isspace :: "char \<Rightarrow> bool" where
  "isspace c =
     (let n = code_point c
      in (9 \<le> n \<and> n \<le> 13) \<or> (28 \<le> n \<and> n \<le> 32) \<or> n = 133 \<or> n = 160)"

text \<open>\<^verbatim>\<open>s.startswith(p)\<close>.\<close>

fun startswith :: "string \<Rightarrow> string \<Rightarrow> bool" where
  "startswith s [] = True"
| "startswith [] (p # ps) = False"
| "startswith (c # cs) (p # ps) = (if c = p then startswith cs ps else False)"

text \<open>\<^verbatim>\<open>sub in s\<close>.\<close>

fun contains :: "string \<Rightarrow> string \<Rightarrow> bool" where
  "contains sub [] = (sub = [])"
| "contains sub (c # cs) = (if startswith (c # cs) sub then True else contains sub cs)"

text \<open>\<^verbatim>\<open>sep.join(parts)\<close>.\<close>

fun join :: "string \<Rightarrow> string list \<Rightarrow> string" where
  "join sep [] = []"
| "join sep [p] = p"
| "join sep (p # q # ps) = p @ sep @ join sep (q # ps)"

text \<open>
  \<^verbatim>\<open>s.split(sep)\<close> for a separator that is not empty (the program only splits on fixed
  markers): the pieces between the occurrences of \<open>sep\<close>, found from the left without
  overlap. \<open>acc\<close> holds the current piece, reversed.
\<close>

function split_from :: "string \<Rightarrow> string \<Rightarrow> string \<Rightarrow> string list" where
  "split_from sep acc [] = [rev acc]"
| "split_from sep acc (c # cs) =
     (if sep \<noteq> [] \<and> startswith (c # cs) sep
      then rev acc # split_from sep [] (drop (length sep) (c # cs))
      else split_from sep (c # acc) cs)"
  by pat_completeness auto
termination
  by (relation "measure (\<lambda>(sep, acc, s). length s)") auto

definition split :: "string \<Rightarrow> string \<Rightarrow> string list" where
  "split s sep = split_from sep [] s"

text \<open>\<^verbatim>\<open>s.strip()\<close>: white space removed at both ends.\<close>

definition strip :: "string \<Rightarrow> string" where
  "strip s = rev (dropWhile isspace (rev (dropWhile isspace s)))"

section \<open>Regular expressions of the validator\<close>

text \<open>
  The patterns of \<^verbatim>\<open>DANGEROUS_PATTERNS\<close> use literals, the classes \<^verbatim>\<open>[a-zA-Z]\<close> and
  \<^verbatim>\<open>\s\<close>, the wildcard, alternation and the postfix operators \<^verbatim>\<open>*\<close> and \<^verbatim>\<open>+\<close>. For
  such patterns \<^verbatim>\<open>re.search\<close> succeeds exactly when some substring belongs to the
  pattern's language; the search below decides that with derivatives.
\<close>

datatype regex =
    Nul
  | Eps
  | Lit char
  | Range char char
  | Space
  | Dot
  | Seq regex regex
  | Alt regex regex
  | Star regex

definition Plus :: "regex \<Rightarrow> regex" where
  "Plus r = Seq r (Star r)"

fun nullable :: "regex \<Rightarrow> bool" where
  "nullable Nul = False"
| "nullable Eps = True"
| "nullable (Lit c) = False"
| "nullable (Range lo hi) = False"
| "nullable Space = False"
| "nullable Dot = False"
| "nullable (Seq r s) = (if nullable r then nullable s else False)"
| "nullable (Alt r s) = (if nullable r then True else nullable s)"
| "nullable (Star r) = True"

text \<open>Constructors that drop the empty language, so that a failed attempt stays small.\<close>

fun seq :: "regex \<Rightarrow> regex \<Rightarrow> regex" where
  "seq Nul s = Nul"
| "seq Eps s = s"
| "seq r s = Seq r s"

fun alt :: "regex \<Rightarrow> regex \<Rightarrow> regex" where
  "alt Nul s = s"
| "alt r Nul = r"
| "alt r s = Alt r s"

fun deriv :: "char \<Rightarrow> regex \<Rightarrow> regex" where
  "deriv c Nul = Nul"
| "deriv c Eps = Nul"
| "deriv c (Lit d) = (if c = d then Eps else Nul)"
| "deriv c (Range lo hi) =
     (if code_point lo \<le> code_point c \<and> code_point c \<le> code_point hi then Eps else Nul)"
| "deriv c Space = (if isspace c then Eps else Nul)"
| "deriv c Dot = (if c = CHR 0x0A then Nul else Eps)"
| "deriv c (Seq r s) =
     (if nullable r then alt (seq (deriv c r) s) (deriv c s) else seq (deriv c r) s)"
| "deriv c (Alt r s) = alt (deriv c r) (deriv c s)"
| "deriv c (Star r) = seq (deriv c r) (Star r)"

fun dead :: "regex \<Rightarrow> bool" where
  "dead Nul = True"
| "dead r = False"

text \<open>\<open>match_prefix r s\<close>: some prefix of \<open>s\<close> matches \<open>r\<close> (a match starting at position 0).\<close>

fun match_prefix :: "regex \<Rightarrow> string \<Rightarrow> bool" where
  "match_prefix r [] = nullable r"
| "match_prefix r (c # cs) =
     (if nullable r then True
      else if dead (deriv c r) then False
      else match_prefix (deriv c r) cs)"

text \<open>\<^verbatim>\<open>re.search(pattern, s)\<close> as a truth value: a match starts at some position.\<close>

fun re_search :: "regex \<Rightarrow> string \<Rightarrow> bool" where
  "re_search r [] = nullable r"
| "re_search r (c # cs) = (if match_prefix r (c # cs) then True else re_search r cs)"

text \<open>A literal word, and a word of pattern source in which the dot is the wildcard.\<close>

fun word :: "string \<Rightarrow> regex" where
  "word [] = Eps"
| "word [c] = Lit c"
| "word (c # d # cs) = Seq (Lit c) (word (d # cs))"

fun source_word :: "string \<Rightarrow> regex" where
  "source_word [] = Eps"
| "source_word (c # cs) = Seq (if c = CHR ''.'' then Dot else Lit c) (source_word cs)"

fun alternatives :: "regex list \<Rightarrow> regex" where
  "alternatives [] = Nul"
| "alternatives [r] = r"
| "alternatives (r # s # rs) = Alt r (alternatives (s # rs))"

section \<open>The static validator (utils/security.py)\<close>

definition DANGEROUS_MODULES :: "string list" where
  "DANGEROUS_MODULES =
     [''os'', ''subprocess'', ''sys'', ''shutil'', ''socket'', ''requests'', ''urllib'',
      ''ftplib'', ''paramiko'', ''telnetlib'', ''smtplib'', ''http.server'', ''socketserver'']"

definition DANGEROUS_FUNCTIONS :: "string list" where
  "DANGEROUS_FUNCTIONS =
     [''eval'', ''exec'', ''compile'', ''globals'', ''locals'', ''getattr'', ''setattr'',
      ''delattr'', ''__import__'', ''open'', ''file'', ''input'', ''raw_input'']"

text \<open>
  Each pattern is kept as its source text (the text the verdict reports) with its compiled
  form. The last pattern is built from \<open>DANGEROUS_MODULES\<close> by \<^verbatim>\<open>"|".join\<close>, so the dot
  of \<^verbatim>\<open>http.server\<close> is a wildcard there.
\<close>

definition DANGEROUS_PATTERNS :: "(string \<times> regex) list" where
  "DANGEROUS_PATTERNS =
     [(''__[a-zA-Z]+__'',
         Seq (word ''__'')
           (Seq (Plus (Alt (Range (CHR ''a'') (CHR ''z'')) (Range (CHR ''A'') (CHR ''Z''))))
             (word ''__''))),
      (''sys'' @ bslash @ ''s*'' @ bslash @ ''.'' @ bslash @ ''s*exit'',
         Seq (word ''sys'') (Seq (Star Space) (Seq (Lit (CHR ''.'')) (Seq (Star Space)
           (word ''exit''))))),
      (''os'' @ bslash @ ''s*'' @ bslash @ ''.'' @ bslash @ ''s*system'',
         Seq (word ''os'') (Seq (Star Space) (Seq (Lit (CHR ''.'')) (Seq (Star Space)
           (word ''system''))))),
      (''subprocess'' @ bslash @ ''s*'' @ bslash @ ''.'' @ bslash @ ''s*(?:call|run|Popen)'',
         Seq (word ''subprocess'') (Seq (Star Space) (Seq (Lit (CHR ''.'')) (Seq (Star Space)
           (alternatives [word ''call'', word ''run'', word ''Popen'']))))),
      (''import'' @ bslash @ ''s+(?:'' @ join ''|'' DANGEROUS_MODULES @ '')'',
         Seq (word ''import'') (Seq (Plus Space)
           (alternatives (map source_word DANGEROUS_MODULES))))]"

text \<open>
  The part of a syntax tree that the validator inspects. \<open>Import\<close> carries the names of
  its aliases, \<open>ImportFrom\<close> its module (\<open>None\<close> for a relative import without a module),
  \<open>Call\<close> its callee and its other children (arguments and keywords), \<open>Other\<close> any other
  node with its children. The alias and context children of \<open>Import\<close>, \<open>ImportFrom\<close> and
  \<open>Name\<close> are left out: no test of the validator applies to them.
\<close>

datatype ast =
    Import "string list"
  | ImportFrom "string option"
  | Call ast "ast list"
  | Name string
  | Attribute ast string
  | Other "ast list"

fun child_nodes :: "ast \<Rightarrow> ast list" where
  "child_nodes (Import names) = []"
| "child_nodes (ImportFrom module) = []"
| "child_nodes (Call func args) = func # args"
| "child_nodes (Name ident) = []"
| "child_nodes (Attribute val attr) = [val]"
| "child_nodes (Other children) = children"

text \<open>
  \<^verbatim>\<open>ast.walk\<close>: breadth first, from a queue; a node is yielded when it leaves the queue
  and its children join the end.
\<close>

function walk_queue :: "ast list \<Rightarrow> ast list" where
  "walk_queue [] = []"
| "walk_queue (node # todo) = node # walk_queue (todo @ child_nodes node)"
  by pat_completeness auto
termination
proof (relation "measure (\<lambda>todo. sum_list (map (\<lambda>n. Suc (size n)) todo))")
  show "wf (measure (\<lambda>todo. sum_list (map (\<lambda>n. Suc (size n)) todo)))"
    by simp
next
  fix node :: ast and todo :: "ast list"
  have le: "sum_list (map (\<lambda>n. Suc (size n)) xs) \<le> size_list size xs" for xs :: "ast list"
    by (induction xs) auto
  have "sum_list (map (\<lambda>n. Suc (size n)) (child_nodes node)) < Suc (size node)"
  proof (cases node)
    case (Call func args)
    then show ?thesis using le [of args] by simp
  next
    case (Other children)
    then show ?thesis using le [of children] by simp
  qed simp_all
  then show "(todo @ child_nodes node, node # todo)
      \<in> measure (\<lambda>todo. sum_list (map (\<lambda>n. Suc (size n)) todo))"
    by simp
qed

definition ast_walk :: "ast \<Rightarrow> ast list" where
  "ast_walk tree = walk_queue [tree]"

text \<open>
  An exception raised by a library call (the parser, the client of a language model,
  \<^verbatim>\<open>str\<close>): its class name, the text that \<^verbatim>\<open>str(e)\<close> returns, and the formatted stack
  frames of its traceback.
\<close>

record py_exception =
  exc_type :: string
  exc_str :: string
  exc_stack :: string

text \<open>
  \<^verbatim>\<open>ast.parse\<close> is the interpreter's parser, a parameter of the model. It returns a tree,
  raises \<^verbatim>\<open>SyntaxError\<close> (kept as its \<^verbatim>\<open>str\<close>), or raises another exception (a
  \<^verbatim>\<open>RecursionError\<close> on deeply nested code, for instance), which \<^verbatim>\<open>is_safe_code\<close> does not
  catch.
\<close>

datatype parse_result =
    Parsed ast
  | SyntaxError string
  | ParseRaised py_exception

type_synonym parser = "string \<Rightarrow> parse_result"

text \<open>The first gate: the first pattern of the list that is found in the code.\<close>

fun first_pattern :: "(string \<times> regex) list \<Rightarrow> string \<Rightarrow> string option" where
  "first_pattern [] code = None"
| "first_pattern ((pattern, r) # rest) code =
     (if re_search r code then Some pattern else first_pattern rest code)"

text \<open>The tests of the structural walk on one node: the reason it is rejected, if it is.\<close>

fun first_dangerous_name :: "string list \<Rightarrow> string option" where
  "first_dangerous_name [] = None"
| "first_dangerous_name (n # ns) =
     (if n \<in> set DANGEROUS_MODULES then Some n else first_dangerous_name ns)"

fun check_node :: "ast \<Rightarrow> string option" where
  "check_node (Import names) =
     (case first_dangerous_name names of
        Some n \<Rightarrow> Some (''Importaci'' @ o_acute @ ''n no permitida: '' @ n)
      | None \<Rightarrow> None)"
| "check_node (ImportFrom module) =
     (case module of
        None \<Rightarrow> None
      | Some m \<Rightarrow>
          if m \<in> set DANGEROUS_MODULES
          then Some (''Importaci'' @ o_acute @ ''n desde m'' @ o_acute @ ''dulo no permitido: '' @ m)
          else None)"
| "check_node (Call (Name ident) args) =
     (if ident \<in> set DANGEROUS_FUNCTIONS
      then Some (''Funci'' @ o_acute @ ''n potencialmente peligrosa: '' @ ident)
      else None)"
| "check_node (Call (Attribute (Name ident) attr) args) =
     (if ident \<in> set DANGEROUS_MODULES
      then Some (''M'' @ o_acute @ ''dulo potencialmente peligroso: '' @ ident @ ''.'' @ attr)
      else None)"
| "check_node node = None"

fun first_rejection :: "ast list \<Rightarrow> string option" where
  "first_rejection [] = None"
| "first_rejection (node # nodes) =
     (case check_node node of Some reason \<Rightarrow> Some reason | None \<Rightarrow> first_rejection nodes)"

text \<open>
  \<^verbatim>\<open>is_safe_code\<close>: \<open>Inr (safe, reason)\<close> is the verdict it returns, \<open>Inl e\<close> an exception of
  the parser that leaves it.
\<close>

definition is_safe_code :: "parser \<Rightarrow> string \<Rightarrow> py_exception + (bool \<times> string)" where
  "is_safe_code ast_parse code =
     (case first_pattern DANGEROUS_PATTERNS code of
        Some pattern \<Rightarrow>
          Inr (False, ''Patr'' @ o_acute @ ''n de c'' @ o_acute
                 @ ''digo potencialmente peligroso detectado: '' @ pattern)
      | None \<Rightarrow>
          (case ast_parse code of
             SyntaxError msg \<Rightarrow> Inr (False, ''Error de sintaxis: '' @ msg)
           | ParseRaised e \<Rightarrow> Inl e
           | Parsed tree \<Rightarrow>
               (case first_rejection (ast_walk tree) of
                  Some reason \<Rightarrow> Inr (False, reason)
                | None \<Rightarrow> Inr (True, ''''))))"

text \<open>
  \<^verbatim>\<open>sanitize_code_output\<close>. \<open>is_stripped\<close> is the character class of its \<^verbatim>\<open>re.sub\<close>:
  \<^verbatim>\<open>[\x00-\x09\x0b\x0c\x0e-\x1f\x7f-\x9f]\<close>.
\<close>

definition truncation_marker :: string where
  "truncation_marker = ''... (salida truncada)''"

definition is_stripped :: "char \<Rightarrow> bool" where
  "is_stripped c =
     (let n = code_point c
      in n \<le> 9 \<or> n = 11 \<or> n = 12 \<or> (14 \<le> n \<and> n \<le> 31) \<or> (127 \<le> n \<and> n \<le> 159))"

definition sanitize_code_output :: "string \<Rightarrow> string" where
  "sanitize_code_output output =
     (let output = (if length output > 10000
                    then take 10000 output @ truncation_marker
                    else output)
      in filter (\<lambda>c. \<not> is_stripped c) output)"

section \<open>The code executor (core/code_executor.py)\<close>

text \<open>
  What a call leaves behind besides its result: the records it logs, the code it hands to
  \<^verbatim>\<open>exec\<close>, and the prompts it sends to a language model, in the order they happen.
\<close>

datatype event =
    LogInfo string
  | LogWarning string
  | LogError string
  | Exec string
  | Invoke string

text \<open>
  A language model: \<^verbatim>\<open>llm.invoke(prompt).content\<close> returns the text of the response, or the
  call raises (an error of the client library, derived from \<^verbatim>\<open>Exception\<close>).
\<close>

type_synonym llm = "string \<Rightarrow> py_exception + string"

text \<open>
  An exception raised by the code that \<^verbatim>\<open>exec\<close> runs, or by \<^verbatim>\<open>str\<close> on one of its values:
  an object of any class. The executor observes whether it is an instance of
  \<^verbatim>\<open>Exception\<close>, what \<^verbatim>\<open>str(e)\<close> does (it returns a text, or raises in its turn), and the
  report that \<^verbatim>\<open>traceback.format_exc()\<close> prints for it: \<open>report_lines\<close> are the lines of
  that report after its header (the stack frames and the lines of the exception, as the
  interpreter formats them).
\<close>

record thrown =
  derives_from_Exception :: bool
  thrown_str :: "py_exception + string"
  report_lines :: "string list"

text \<open>
  A Python object is represented by what \<^verbatim>\<open>str\<close> does on it, the only observation the
  executor makes of a value: it returns a text, or it raises (an integer of more than 4300
  digits, for instance).
\<close>

datatype py_object =
    Rendered string
  | Unrenderable thrown

fun str_of :: "py_object \<Rightarrow> thrown + string" where
  "str_of (Rendered text) = Inr text"
| "str_of (Unrenderable e) = Inl e"

text \<open>
  A key of the dict of local names: a name, or an object that is not a \<^verbatim>\<open>str\<close> (the
  snippet can store one through \<^verbatim>\<open>vars()\<close>), represented by the \<^verbatim>\<open>AttributeError\<close> that
  \<^verbatim>\<open>k.startswith\<close> raises on it.
\<close>

datatype py_key =
    StrKey string
  | OtherKey thrown

text \<open>
  \<^verbatim>\<open>exec\<close> is the interpreter, a parameter of the model. A run writes to the two redirected
  streams and then finishes with its local namespace (a dict, in insertion order), or
  raises. The parameter describes the runs that end: the program sets no time limit, and
  a run that does not end keeps \<^verbatim>\<open>execute_code\<close> from returning.
\<close>

datatype exec_outcome =
    Finished "(py_key \<times> py_object) list"
  | Raised thrown

record exec_run =
  written_stdout :: string
  written_stderr :: string
  outcome :: exec_outcome

type_synonym interpreter = "string \<Rightarrow> exec_run"

text \<open>
  The dict that \<^verbatim>\<open>execute_code\<close> returns. \<open>error\<close> is \<open>None\<close> for Python's \<^verbatim>\<open>None\<close>; the
  keys \<^verbatim>\<open>variables\<close> and \<^verbatim>\<open>traceback\<close> are \<open>None\<close> when the dict lacks them.
\<close>

record execution_result =
  status :: string
  stdout :: string
  stderr :: string
  error :: "string option"
  variables :: "(string \<times> string) list option"
  traceback :: "string option"

definition allowed_imports :: "(string \<times> string) list" where
  "allowed_imports =
     [(''math'', ''import math''),
      (''random'', ''import random''),
      (''datetime'', ''from datetime import datetime, date, timedelta''),
      (''statistics'', ''import statistics''),
      (''pandas'', ''import pandas as pd''),
      (''numpy'', ''import numpy as np''),
      (''re'', ''import re''),
      (''collections'', ''import collections'')]"

definition code_generation_prompt :: "string \<Rightarrow> string" where
  "code_generation_prompt query =
     ''\<newline>''
      @ ''        El usuario ha realizado una consulta que requiere c'' @ a_acute
      @ ''lculos precisos o ejecuci'' @ o_acute @ ''n de c'' @ o_acute @ ''digo:\<newline>''
      @ ''        \<newline>''
      @ ''        '' @ dquote @ query @ dquote @ ''\<newline>''
      @ ''        \<newline>''
      @ ''        Genera '' @ U_acute @ ''NICAMENTE c'' @ o_acute
      @ ''digo Python para resolver esta consulta. El c'' @ o_acute @ ''digo debe:\<newline>''
      @ ''        1. Ser claro, eficiente y seguir las mejores pr'' @ a_acute @ ''cticas\<newline>''
      @ ''        2. Incluir comentarios explicativos\<newline>''
      @ ''        3. Manejar posibles errores\<newline>''
      @ ''        4. Mostrar resultados con print() para que sean visibles\<newline>''
      @ ''        5. Usar bibliotecas est'' @ a_acute @ ''ndar o numpy/pandas si es necesario\<newline>''
      @ ''        \<newline>''
      @ ''        NO expliques el c'' @ o_acute
      @ ''digo, NO incluyas markdown. Proporciona SOLAMENTE el c'' @ o_acute @ ''digo Python.\<newline>''
      @ ''        ''"

text \<open>The snippet that \<^verbatim>\<open>generate_code\<close> returns when the model call raised.\<close>

definition fallback_code :: "string \<Rightarrow> string" where
  "fallback_code msg =
     ''# Error al generar c'' @ o_acute @ ''digo\<newline>print('' @ squote
       @ ''No se pudo generar c'' @ o_acute @ ''digo: '' @ msg @ squote @ '')''"

text \<open>
  \<^verbatim>\<open>generate_code\<close>: the events of the call and the code it returns. The index 1 is
  only read after \<open>contains\<close> has found the marker, when \<open>split\<close> has at least two pieces.
\<close>

definition generate_code :: "llm \<Rightarrow> string \<Rightarrow> event list \<times> string" where
  "generate_code invoke query =
     (let prompt = code_generation_prompt query
      in case invoke prompt of
           Inr python_code \<Rightarrow>
             ([Invoke prompt],
              if contains (''```python'') python_code
              then strip (hd (split (split python_code (''```python'') ! 1) (''```'')))
              else if contains (''```'') python_code
              then strip (hd (split (split python_code (''```'') ! 1) (''```'')))
              else python_code)
         | Inl e \<Rightarrow>
             ([Invoke prompt,
               LogError (''Error al generar c'' @ o_acute @ ''digo: '' @ exc_str e)],
              fallback_code (exc_str e)))"

text \<open>
  \<^verbatim>\<open>traceback.format_exc()\<close> in the handler of \<^verbatim>\<open>execute_code\<close>: the header that CPython
  prints for an exception with a traceback, then the lines of the report, each ended by a
  line break.
\<close>

definition format_exc :: "thrown \<Rightarrow> string" where
  "format_exc e =
     concat (map (\<lambda>line. line @ ''\<newline>'')
       (''Traceback (most recent call last):'' # report_lines e))"

definition augmented :: "string \<Rightarrow> string" where
  "augmented code = join ''\<newline>'' (map snd allowed_imports) @ ''\<newline>\<newline>'' @ code"

text \<open>
  The dict comprehension over \<^verbatim>\<open>local_vars.items()\<close>: the names that do not start with an
  underscore, each with \<^verbatim>\<open>str\<close> of its value, in the order of the dict. The first
  \<^verbatim>\<open>k.startswith\<close> or \<^verbatim>\<open>str\<close> that raises ends it.
\<close>

fun rendered_variables ::
    "(py_key \<times> py_object) list \<Rightarrow> thrown + (string \<times> string) list" where
  "rendered_variables [] = Inr []"
| "rendered_variables ((OtherKey e, v) # rest) = Inl e"
| "rendered_variables ((StrKey k, v) # rest) =
     (if startswith k ''_'' then rendered_variables rest
      else case str_of v of
             Inl e \<Rightarrow> Inl e
           | Inr text \<Rightarrow>
               (case rendered_variables rest of
                  Inl e \<Rightarrow> Inl e
                | Inr vars \<Rightarrow> Inr ((k, text) # vars)))"

text \<open>What leaves \<^verbatim>\<open>execute_code\<close> when it does not return: an exception object.\<close>

datatype escaped =
    Escaped py_exception
  | EscapedThrown thrown

text \<open>
  The clause \<^verbatim>\<open>except Exception as e\<close> for an exception \<open>e\<close> raised inside the \<^verbatim>\<open>try\<close>,
  after the events \<open>evs\<close>. An exception that is not an instance of \<^verbatim>\<open>Exception\<close> passes
  through; in the handler \<^verbatim>\<open>str(e)\<close> is not protected, and what it raises leaves the
  function.
\<close>

definition handle_exception ::
    "exec_run \<Rightarrow> event list \<Rightarrow> thrown \<Rightarrow> event list \<times> (escaped + execution_result)" where
  "handle_exception run evs e =
     (if \<not> derives_from_Exception e then (evs, Inl (EscapedThrown e))
      else case thrown_str e of
             Inl raised_by_str \<Rightarrow> (evs, Inl (Escaped raised_by_str))
           | Inr error_msg \<Rightarrow>
               (evs @ [LogError (''Error al ejecutar c'' @ o_acute @ ''digo: '' @ error_msg)],
                Inr \<lparr>status = ''error'',
                     stdout = sanitize_code_output (written_stdout run),
                     stderr = sanitize_code_output (written_stderr run),
                     error = Some error_msg,
                     variables = None,
                     traceback = Some (format_exc e)\<rparr>))"

text \<open>
  \<^verbatim>\<open>execute_code\<close>: the events of the call, and the dict it returns (\<open>Inr\<close>) or the
  exception that leaves it (\<open>Inl\<close>). The variables are rendered inside the \<^verbatim>\<open>try\<close>, after
  the record of success is logged.
\<close>

definition execute_code ::
    "parser \<Rightarrow> interpreter \<Rightarrow> string \<Rightarrow> event list \<times> (escaped + execution_result)" where
  "execute_code ast_parse exec code =
     (case is_safe_code ast_parse code of
        Inl e \<Rightarrow> ([], Inl (Escaped e))
      | Inr (is_safe, error_message) \<Rightarrow>
          if \<not> is_safe
          then ([LogWarning (''C'' @ o_acute @ ''digo inseguro detectado: '' @ error_message)],
                Inr \<lparr>status = ''error'',
                     stdout = '''',
                     stderr = ''C'' @ o_acute @ ''digo potencialmente peligroso detectado: ''
                                @ error_message,
                     error = Some error_message,
                     variables = None,
                     traceback = None\<rparr>)
          else
            (let augmented_code = augmented code;
                 run = exec augmented_code
             in case outcome run of
                  Raised e \<Rightarrow> handle_exception run [Exec augmented_code] e
                | Finished local_vars \<Rightarrow>
                    (case rendered_variables local_vars of
                       Inl e \<Rightarrow>
                         handle_exception run
                           [Exec augmented_code,
                            LogInfo (''C'' @ o_acute @ ''digo ejecutado correctamente'')] e
                     | Inr vars \<Rightarrow>
                         ([Exec augmented_code,
                           LogInfo (''C'' @ o_acute @ ''digo ejecutado correctamente'')],
                          Inr \<lparr>status = ''success'',
                               stdout = sanitize_code_output (written_stdout run),
                               stderr = sanitize_code_output (written_stderr run),
                               error = None,
                               variables = Some vars,
                               traceback = None\<rparr>))))"

section \<open>The conversation memory (core/memory_manager.py)\<close>

record entry =
  role :: string
  content :: string
  timestamp :: string

record settings =
  max_memory_tokens :: int
  char_to_token_ratio :: int

definition default_settings :: settings where
  "default_settings = \<lparr>max_memory_tokens = 2000, char_to_token_ratio = 4\<rparr>"

text \<open>
  \<^verbatim>\<open>str.upper\<close> on code points below 256. The three whose upper case lies outside that
  range or is two letters (0xB5, 0xDF, 0xFF) are left as they are; the roles the program
  passes are ASCII.
\<close>

definition upper_char :: "char \<Rightarrow> char" where
  "upper_char c =
     (let n = code_point c
      in if (97 \<le> n \<and> n \<le> 122) \<or> (224 \<le> n \<and> n \<le> 254 \<and> n \<noteq> 247)
         then char_of (n - 32) else c)"

definition upper :: "string \<Rightarrow> string" where
  "upper s = map upper_char s"

text \<open>\<^verbatim>\<open>str\<close> of an integer (the token estimate in a log record).\<close>

function show_nat :: "nat \<Rightarrow> string" where
  "show_nat n =
     (if n < 10 then [char_of (48 + n)] else show_nat (n div 10) @ [char_of (48 + n mod 10)])"
  by pat_completeness auto
termination
  by (relation "measure (\<lambda>n. n)") auto

definition show_int :: "int \<Rightarrow> string" where
  "show_int i = (if i < 0 then ''-'' @ show_nat (nat (- i)) else show_nat (nat i))"

definition summary_prompt :: "string \<Rightarrow> string" where
  "summary_prompt history_text =
     ''\<newline>''
      @ ''            Resume la siguiente conversaci'' @ o_acute
      @ ''n de manera concisa pero manteniendo \<newline>''
      @ ''            los puntos clave, el contexto importante y cualquier informaci'' @ o_acute
      @ ''n factual relevante.\<newline>''
      @ ''            El resumen debe ser completo pero compacto.\<newline>''
      @ ''            \<newline>''
      @ ''            CONVERSACI'' @ O_acute @ ''N:\<newline>''
      @ ''            '' @ history_text @ ''\<newline>''
      @ ''            \<newline>''
      @ ''            RESUMEN CONCISO:\<newline>''
      @ ''            ''"

definition history_text_of :: "entry list \<Rightarrow> string" where
  "history_text_of to_summarize =
     concat (map (\<lambda>e. upper (role e) @ '': '' @ content e @ ''\<newline>\<newline>'') to_summarize)"

text \<open>The two slices of \<^verbatim>\<open>_summarize_memory\<close>.\<close>

definition recent_history :: "entry list \<Rightarrow> entry list" where
  "recent_history h = (if length h \<ge> 4 then drop (length h - 4) h else [])"

definition history_to_summarize :: "entry list \<Rightarrow> entry list" where
  "history_to_summarize h = (if length h \<ge> 4 then take (length h - 4) h else h)"

definition summary_entry :: "string \<Rightarrow> string \<Rightarrow> entry" where
  "summary_entry summary now =
     \<lparr>role = ''system'',
      content = ''Resumen de la conversaci'' @ o_acute @ ''n previa: '' @ summary,
      timestamp = now\<rparr>"

text \<open>
  The state after a method of the memory manager: the history, the events of the call, and
  the class of the exception that left the method, if one did.
\<close>

record memory_step =
  history :: "entry list"
  events :: "event list"
  raised :: "string option"

text \<open>\<^verbatim>\<open>_summarize_memory\<close>; \<open>now\<close> is the clock reading for the summary entry.\<close>

definition summarize_memory :: "llm \<Rightarrow> string \<Rightarrow> entry list \<Rightarrow> memory_step" where
  "summarize_memory invoke now h =
     (if history_to_summarize h = []
      then \<lparr>history = h, events = [], raised = None\<rparr>
      else
        (let prompt = summary_prompt (history_text_of (history_to_summarize h))
         in case invoke prompt of
              Inr summary \<Rightarrow>
                \<lparr>history = summary_entry summary now # recent_history h,
                 events = [Invoke prompt, LogInfo ''Memoria resumida exitosamente''],
                 raised = None\<rparr>
            | Inl e \<Rightarrow>
                \<lparr>history = h,
                 events = [Invoke prompt,
                           LogError (''Error al resumir la memoria: '' @ exc_str e)],
                 raised = None\<rparr>))"

definition total_chars :: "entry list \<Rightarrow> int" where
  "total_chars h = sum_list (map (\<lambda>e. int (length (content e))) h)"

text \<open>
  \<^verbatim>\<open>_check_and_summarize\<close>. The floor division raises \<^verbatim>\<open>ZeroDivisionError\<close> when the
  configured ratio is 0; the method does not catch it.
\<close>

definition check_and_summarize :: "settings \<Rightarrow> llm \<Rightarrow> string \<Rightarrow> entry list \<Rightarrow> memory_step" where
  "check_and_summarize cfg invoke now h =
     (if length h \<le> 2
      then \<lparr>history = h, events = [], raised = None\<rparr>
      else if char_to_token_ratio cfg = 0
      then \<lparr>history = h, events = [], raised = Some ''ZeroDivisionError''\<rparr>
      else
        (let estimated_tokens = total_chars h div char_to_token_ratio cfg
         in if estimated_tokens > max_memory_tokens cfg
            then
              (let step = summarize_memory invoke now h
               in step\<lparr>events :=
                    LogInfo (''Resumiendo memoria (aprox. '' @ show_int estimated_tokens
                              @ '' tokens)'') # events step\<rparr>)
            else \<lparr>history = h, events = [], raised = None\<rparr>))"

text \<open>
  \<^verbatim>\<open>add_message\<close>; \<open>t_msg\<close> and \<open>t_sum\<close> are the readings of the clock for the new entry
  and for a summary entry.
\<close>

definition add_message ::
    "settings \<Rightarrow> llm \<Rightarrow> string \<Rightarrow> string \<Rightarrow> string \<Rightarrow> string \<Rightarrow> entry list \<Rightarrow> memory_step" where
  "add_message cfg invoke t_msg t_sum r c h =
     check_and_summarize cfg invoke t_sum
       (h @ [\<lparr>role = r, content = c, timestamp = t_msg\<rparr>])"

section \<open>Notions of the specification and example environments\<close>

text \<open>
  Control characters in the sense of Unicode (general category Cc: U+0000 to U+001F and
  U+007F to U+009F). This is the notion the statements about the sanitiser speak of; the
  program itself only has the character class \<open>is_stripped\<close>.
\<close>

definition is_control :: "char \<Rightarrow> bool" where
  "is_control c = (let n = code_point c in n \<le> 31 \<or> (127 \<le> n \<and> n \<le> 159))"

text \<open>
  A syntactic check on a pattern, used to reason about a search in a text that ends with
  known characters: \<open>ends_outside cs r\<close> holds only if no word of \<open>r\<close> ends with a character
  of \<open>cs\<close>. (It answers no for a pattern that ends with a character class.)
\<close>

fun ends_outside :: "char list \<Rightarrow> regex \<Rightarrow> bool" where
  "ends_outside cs Nul = True"
| "ends_outside cs Eps = True"
| "ends_outside cs (Lit c) = (c \<notin> set cs)"
| "ends_outside cs (Range lo hi) = False"
| "ends_outside cs Space = False"
| "ends_outside cs Dot = False"
| "ends_outside cs (Seq r s) =
     (if nullable s then ends_outside cs r \<and> ends_outside cs s else ends_outside cs s)"
| "ends_outside cs (Alt r s) = (ends_outside cs r \<and> ends_outside cs s)"
| "ends_outside cs (Star r) = ends_outside cs r"


text \<open>
  The tree of a module whose only statement is a call of \<^verbatim>\<open>print\<close> on one constant:
  \<^verbatim>\<open>Module(body=[Expr(Call(Name('print'), [Constant]))])\<close>.
\<close>

definition print_call_tree :: ast where
  "print_call_tree = Other [Other [Call (Name ''print'') [Other []]]]"

text \<open>
  The snippets of the examples, with the behaviour of CPython on them: the trees of its
  parser (reduced to the node kinds of \<open>ast\<close>) and the runs of \<^verbatim>\<open>exec\<close> on the augmented
  code, for a program installed under \<^verbatim>\<open>/app\<close>. The example parser and interpreter are
  only used on these snippets.
\<close>

definition os_snippet :: string where
  "os_snippet = ''import os\<newline>os.system('' @ squote @ ''ls'' @ squote @ '')''"

definition fault_snippet :: string where
  "fault_snippet = ''print(1)\<newline>1/0''"

definition exit_snippet :: string where
  "exit_snippet = ''raise SystemExit(3)''"

definition executor_frame :: "string list" where
  "executor_frame =
     [''  File '' @ dquote @ ''/app/core/code_executor.py'' @ dquote
        @ '', line 148, in execute_code'',
      ''    exec(augmented_code, {'' @ dquote @ ''__builtins__'' @ dquote
        @ '': __builtins__}, local_vars)'']"

definition zero_division :: thrown where
  "zero_division =
     \<lparr>derives_from_Exception = True,
      thrown_str = Inr ''division by zero'',
      report_lines =
        executor_frame
          @ [''  File '' @ dquote @ ''<string>'' @ dquote @ '', line 11, in <module>'',
             ''ZeroDivisionError: division by zero'']\<rparr>"

definition system_exit :: thrown where
  "system_exit =
     \<lparr>derives_from_Exception = False,
      thrown_str = Inr ''3'',
      report_lines =
        executor_frame
          @ [''  File '' @ dquote @ ''<string>'' @ dquote @ '', line 10, in <module>'',
             ''SystemExit: 3'']\<rparr>"

definition preamble_rendering :: "(string \<times> string) list" where
  "preamble_rendering =
     [(''math'', ''<module 'math' (built-in)>''),
      (''random'', ''<module 'random' from '/usr/lib/python3.11/random.py'>''),
      (''datetime'', ''<class 'datetime.datetime'>''),
      (''date'', ''<class 'datetime.date'>''),
      (''timedelta'', ''<class 'datetime.timedelta'>''),
      (''statistics'', ''<module 'statistics' from '/usr/lib/python3.11/statistics.py'>''),
      (''pd'', ''<module 'pandas' from '/usr/lib/python3/dist-packages/pandas/__init__.py'>''),
      (''np'', ''<module 'numpy' from '/usr/lib/python3/dist-packages/numpy/__init__.py'>''),
      (''re'', ''<module 're' from '/usr/lib/python3.11/re/__init__.py'>''),
      (''collections'', ''<module 'collections' from '/usr/lib/python3.11/collections/__init__.py'>'')]"

definition preamble_namespace :: "(py_key \<times> py_object) list" where
  "preamble_namespace = map (\<lambda>(k, text). (StrKey k, Rendered text)) preamble_rendering"

definition example_parse :: parser where
  "example_parse code =
     (if code = os_snippet
      then Parsed (Other [Import [''os''],
                          Other [Call (Attribute (Name ''os'') ''system'') [Other []]]])
      else if code = ''x = 1''
      then Parsed (Other [Other [Name ''x'', Other []]])
      else if code = fault_snippet
      then Parsed (Other [Other [Call (Name ''print'') [Other []]],
                          Other [Other [Other [], Other [], Other []]]])
      else if code = exit_snippet
      then Parsed (Other [Other [Call (Name ''SystemExit'') [Other []]]])
      else if code = fallback_code ''timeout''
      then Parsed (Other [Other [Call (Name ''print'') [Other []]]])
      else SyntaxError ''invalid syntax'')"

definition example_exec :: interpreter where
  "example_exec code =
     (if code = augmented ''x = 1''
      then \<lparr>written_stdout = '''', written_stderr = '''',
            outcome = Finished (preamble_namespace @ [(StrKey ''x'', Rendered ''1'')])\<rparr>
      else if code = augmented fault_snippet
      then \<lparr>written_stdout = ''1\<newline>'', written_stderr = [], outcome = Raised zero_division\<rparr>
      else if code = augmented exit_snippet
      then \<lparr>written_stdout = [], written_stderr = [], outcome = Raised system_exit\<rparr>
      else \<lparr>written_stdout = '''', written_stderr = '''', outcome = Finished preamble_namespace\<rparr>)"

definition failing_llm :: llm where
  "failing_llm prompt =
     Inl \<lparr>exc_type = ''TypeError'',
          exc_str = ''Client.__init__() got an unexpected keyword argument '' @ squote
                      @ ''proxies'' @ squote,
          exc_stack = []\<rparr>"

definition timeout_llm :: llm where
  "timeout_llm prompt =
     Inl \<lparr>exc_type = ''APITimeoutError'', exc_str = ''timeout'', exc_stack = []\<rparr>"

definition summarizing_llm :: llm where
  "summarizing_llm prompt = Inr ''El usuario pide tres informes.''"

definition long_entry :: "string \<Rightarrow> entry" where
  "long_entry r =
     \<lparr>role = r, content = replicate 3000 (CHR ''a''), timestamp = ''2025-01-01T10:00:00''\<rparr>"

definition short_entry :: "string \<Rightarrow> entry" where
  "short_entry r = \<lparr>role = r, content = ''ok'', timestamp = ''2025-01-01T10:05:00''\<rparr>"

definition three_long_entries :: "entry list" where
  "three_long_entries = [long_entry ''user'', long_entry ''assistant'', long_entry ''user'']"

definition four_long_entries :: "entry list" where
  "four_long_entries =
     [long_entry ''user'', long_entry ''assistant'', long_entry ''user'', long_entry ''assistant'']"


section \<open>Evaluations shared by the examples\<close>

lemma os_snippet_verdict:
  "is_safe_code p os_snippet =
     Inr (False, ''Patr'' @ o_acute @ ''n de c'' @ o_acute
            @ ''digo potencialmente peligroso detectado: ''
            @ ''os'' @ bslash @ ''s*'' @ bslash @ ''.'' @ bslash @ ''s*system'')"
proof -
  have "first_pattern DANGEROUS_PATTERNS os_snippet
          = Some (''os'' @ bslash @ ''s*'' @ bslash @ ''.'' @ bslash @ ''s*system'')"
    by code_simp
  then show ?thesis
    by (simp add: is_safe_code_def)
qed

lemma execute_code_rejected:
  "is_safe_code p code = Inr (False, msg) \<Longrightarrow>
   execute_code p x code =
     ([LogWarning (''C'' @ o_acute @ ''digo inseguro detectado: '' @ msg)],
      Inr \<lparr>status = ''error'', stdout = [],
           stderr = ''C'' @ o_acute @ ''digo potencialmente peligroso detectado: '' @ msg,
           error = Some msg, variables = None, traceback = None\<rparr>)"
  by (simp add: execute_code_def)

lemma example_x_safe: "is_safe_code example_parse ''x = 1'' = Inr (True, [])"
  by code_simp








lemma fallback_walk: "first_rejection (ast_walk print_call_tree) = None"
  by code_simp


text \<open>What \<^verbatim>\<open>execute_code\<close> does with code that is judged safe, by the outcome of the run.\<close>

lemma execute_code_raised:
  assumes "is_safe_code p code = Inr (True, reason)"
    and "outcome (x (augmented code)) = Raised e"
  shows "execute_code p x code = handle_exception (x (augmented code)) [Exec (augmented code)] e"
  using assms by (simp add: execute_code_def Let_def)

lemma execute_code_finished:
  assumes "is_safe_code p code = Inr (True, reason)"
    and "outcome (x (augmented code)) = Finished local_vars"
    and "rendered_variables local_vars = Inr vars"
  shows "execute_code p x code =
     ([Exec (augmented code), LogInfo (''C'' @ o_acute @ ''digo ejecutado correctamente'')],
      Inr \<lparr>status = ''success'',
           stdout = sanitize_code_output (written_stdout (x (augmented code))),
           stderr = sanitize_code_output (written_stderr (x (augmented code))),
           error = None, variables = Some vars, traceback = None\<rparr>)"
  using assms by (simp add: execute_code_def Let_def)

lemma execute_code_unrenderable:
  assumes "is_safe_code p code = Inr (True, reason)"
    and "outcome (x (augmented code)) = Finished local_vars"
    and "rendered_variables local_vars = Inl e"
  shows "execute_code p x code =
     handle_exception (x (augmented code))
       [Exec (augmented code), LogInfo (''C'' @ o_acute @ ''digo ejecutado correctamente'')] e"
  using assms by (simp add: execute_code_def Let_def)

lemma handle_exception_events:
  "\<exists>more. fst (handle_exception run evs e) = evs @ more \<and> (\<forall>c. Exec c \<notin> set more)"
  by (auto simp: handle_exception_def split: sum.splits)

lemma execute_code_safe_events:
  assumes "is_safe_code p code = Inr (True, reason)"
  shows "\<exists>rest. fst (execute_code p x code) = Exec (augmented code) # rest
           \<and> (\<forall>c. Exec c \<notin> set rest)"
proof (cases "outcome (x (augmented code))")
  case (Raised e)
  obtain more where "fst (handle_exception (x (augmented code)) [Exec (augmented code)] e)
      = [Exec (augmented code)] @ more" and "\<forall>c. Exec c \<notin> set more"
    using handle_exception_events by blast
  then show ?thesis
    using execute_code_raised [where x = x, OF assms Raised] by simp
next
  case (Finished local_vars)
  show ?thesis
  proof (cases "rendered_variables local_vars")
    case (Inr vars)
    show ?thesis
      using execute_code_finished [where x = x, OF assms Finished Inr] by simp
  next
    case (Inl e)
    obtain more where "fst (handle_exception (x (augmented code))
        [Exec (augmented code), LogInfo (''C'' @ o_acute @ ''digo ejecutado correctamente'')] e)
      = [Exec (augmented code), LogInfo (''C'' @ o_acute @ ''digo ejecutado correctamente'')]
          @ more" and "\<forall>c. Exec c \<notin> set more"
      using handle_exception_events by blast
    then show ?thesis
      using execute_code_unrenderable [where x = x, OF assms Finished Inl] by simp
  qed
qed

lemma execute_code_without_verdict:
  "is_safe_code p code = Inl e \<Longrightarrow> execute_code p x code = ([], Inl (Escaped e))"
  by (simp add: execute_code_def)

section \<open>The sandbox and the validator's verdict\<close>

text \<open>
  Claim C1 says that \<^verbatim>\<open>execute_code\<close> never consults the validator and never returns a
  validation rejection. Counterexample: on the snippet that imports \<^verbatim>\<open>os\<close> and calls
  \<^verbatim>\<open>os.system\<close>, the call logs one warning, hands nothing to \<^verbatim>\<open>exec\<close>, and returns the
  rejection built from the validator's reason.
\<close>

theorem execute_code_rejects_os_snippet:
  "execute_code example_parse example_exec os_snippet =
     ([LogWarning (''C'' @ o_acute @ ''digo inseguro detectado: ''
         @ ''Patr'' @ o_acute @ ''n de c'' @ o_acute
         @ ''digo potencialmente peligroso detectado: ''
         @ ''os'' @ bslash @ ''s*'' @ bslash @ ''.'' @ bslash @ ''s*system'')],
      Inr \<lparr>status = ''error'', stdout = [],
           stderr = ''C'' @ o_acute @ ''digo potencialmente peligroso detectado: ''
             @ ''Patr'' @ o_acute @ ''n de c'' @ o_acute
             @ ''digo potencialmente peligroso detectado: ''
             @ ''os'' @ bslash @ ''s*'' @ bslash @ ''.'' @ bslash @ ''s*system'',
           error = Some (''Patr'' @ o_acute @ ''n de c'' @ o_acute
             @ ''digo potencialmente peligroso detectado: ''
             @ ''os'' @ bslash @ ''s*'' @ bslash @ ''.'' @ bslash @ ''s*system''),
           variables = None, traceback = None\<rparr>)"
  using execute_code_rejected [OF os_snippet_verdict, of example_parse example_exec] by simp

text \<open>
  Claim C1, amended: \<^verbatim>\<open>execute_code\<close> validates its input itself. For every parser,
  interpreter and code string: when \<^verbatim>\<open>is_safe_code\<close> returns the verdict unsafe with a
  reason, \<^verbatim>\<open>execute_code\<close> returns the validation rejection (status \<^verbatim>\<open>error\<close>, empty
  stdout, the reason as error) after one warning and no call of \<^verbatim>\<open>exec\<close>; when the verdict
  is safe, its first event is the call of \<^verbatim>\<open>exec\<close> on the augmented code (the import
  preamble, an empty line, the code) and it calls \<^verbatim>\<open>exec\<close> on nothing else; and it calls
  \<^verbatim>\<open>exec\<close> at all exactly when the verdict is safe.
\<close>

theorem execute_code_runs_iff_judged_safe:
  "(\<forall>msg. is_safe_code p code = Inr (False, msg) \<longrightarrow>
      execute_code p x code =
        ([LogWarning (''C'' @ o_acute @ ''digo inseguro detectado: '' @ msg)],
         Inr \<lparr>status = ''error'', stdout = [],
              stderr = ''C'' @ o_acute @ ''digo potencialmente peligroso detectado: '' @ msg,
              error = Some msg, variables = None, traceback = None\<rparr>))
   \<and> (\<forall>reason. is_safe_code p code = Inr (True, reason) \<longrightarrow>
        (\<exists>rest. fst (execute_code p x code) = Exec (augmented code) # rest
           \<and> (\<forall>c. Exec c \<notin> set rest)))
   \<and> ((\<exists>c. Exec c \<in> set (fst (execute_code p x code)))
        = (\<exists>reason. is_safe_code p code = Inr (True, reason)))
   \<and> augmented code =
        ''import math\<newline>import random\<newline>from datetime import datetime, date, timedelta\<newline>''
        @ ''import statistics\<newline>import pandas as pd\<newline>import numpy as np\<newline>''
        @ ''import re\<newline>import collections\<newline>\<newline>'' @ code"
proof (intro conjI allI impI)
  fix msg
  assume "is_safe_code p code = Inr (False, msg)"
  then show "execute_code p x code =
        ([LogWarning (''C'' @ o_acute @ ''digo inseguro detectado: '' @ msg)],
         Inr \<lparr>status = ''error'', stdout = [],
              stderr = ''C'' @ o_acute @ ''digo potencialmente peligroso detectado: '' @ msg,
              error = Some msg, variables = None, traceback = None\<rparr>)"
    by (rule execute_code_rejected)
next
  fix reason
  assume "is_safe_code p code = Inr (True, reason)"
  then show "\<exists>rest. fst (execute_code p x code) = Exec (augmented code) # rest
      \<and> (\<forall>c. Exec c \<notin> set rest)"
    by (rule execute_code_safe_events)
next
  show "(\<exists>c. Exec c \<in> set (fst (execute_code p x code)))
      = (\<exists>reason. is_safe_code p code = Inr (True, reason))"
  proof (cases "is_safe_code p code")
    case (Inl e)
    then show ?thesis
      by (simp add: execute_code_without_verdict)
  next
    case (Inr verdict)
    obtain is_safe msg where v: "verdict = (is_safe, msg)"
      by (cases verdict)
    show ?thesis
    proof (cases is_safe)
      case True
      with Inr v have safe: "is_safe_code p code = Inr (True, msg)"
        by simp
      from execute_code_safe_events [OF safe, of x] safe show ?thesis
        by auto
    next
      case False
      with Inr v have unsafe: "is_safe_code p code = Inr (False, msg)"
        by simp
      from execute_code_rejected [OF unsafe, of x] unsafe show ?thesis
        by simp
    qed
  qed
next
  show "augmented code =
        ''import math\<newline>import random\<newline>from datetime import datetime, date, timedelta\<newline>''
        @ ''import statistics\<newline>import pandas as pd\<newline>import numpy as np\<newline>''
        @ ''import re\<newline>import collections\<newline>\<newline>'' @ code"
    by (simp add: augmented_def allowed_imports_def)
qed

text \<open>
  The amended claim C1 at the snippet \<^verbatim>\<open>x = 1\<close>, which is judged safe: the events are the
  call of \<^verbatim>\<open>exec\<close> on the augmented code and the record of success.
\<close>

theorem execute_code_runs_iff_judged_safe_witness:
  "is_safe_code example_parse ''x = 1'' = Inr (True, [])
   \<and> (\<exists>rest. fst (execute_code example_parse example_exec ''x = 1'')
         = Exec (augmented ''x = 1'') # rest \<and> (\<forall>c. Exec c \<notin> set rest))
   \<and> (\<exists>c. Exec c \<in> set (fst (execute_code example_parse example_exec ''x = 1'')))"
  using execute_code_runs_iff_judged_safe [of example_parse "''x = 1''" example_exec]
    example_x_safe
  by blast

text \<open>
  Claim C10: unsafe code is never executed. For every code string for which
  \<^verbatim>\<open>is_safe_code\<close> returns the verdict unsafe with the reason \<open>msg\<close>, \<^verbatim>\<open>execute_code\<close>
  returns a dict with status \<^verbatim>\<open>error\<close>, empty stdout, a stderr text that ends with \<open>msg\<close>
  and \<open>msg\<close> as its error; it logs one warning and hands no code to \<^verbatim>\<open>exec\<close>, whatever
  the interpreter is.
\<close>

theorem unsafe_code_not_executed:
  assumes "is_safe_code p code = Inr (False, msg)"
  shows "execute_code p x code =
     ([LogWarning (''C'' @ o_acute @ ''digo inseguro detectado: '' @ msg)],
      Inr \<lparr>status = ''error'', stdout = [],
           stderr = ''C'' @ o_acute @ ''digo potencialmente peligroso detectado: '' @ msg,
           error = Some msg, variables = None, traceback = None\<rparr>)
     \<and> (\<forall>c. Exec c \<notin> set (fst (execute_code p x code)))"
  using execute_code_rejected [OF assms, of x] by simp

text \<open>Claim C10 at the snippet that calls \<^verbatim>\<open>os.system\<close>.\<close>

theorem unsafe_code_not_executed_witness:
  "is_safe_code example_parse os_snippet =
     Inr (False, ''Patr'' @ o_acute @ ''n de c'' @ o_acute
            @ ''digo potencialmente peligroso detectado: ''
            @ ''os'' @ bslash @ ''s*'' @ bslash @ ''.'' @ bslash @ ''s*system'')
   \<and> fst (execute_code example_parse example_exec os_snippet) =
       [LogWarning (''C'' @ o_acute @ ''digo inseguro detectado: ''
          @ ''Patr'' @ o_acute @ ''n de c'' @ o_acute
          @ ''digo potencialmente peligroso detectado: ''
          @ ''os'' @ bslash @ ''s*'' @ bslash @ ''.'' @ bslash @ ''s*system'')]"
  using unsafe_code_not_executed [OF os_snippet_verdict, of example_parse example_exec]
    os_snippet_verdict [of example_parse]
  by simp

text \<open>
  Claim C9: the validator judges the snippet \<^verbatim>\<open>import os\<close>, \<^verbatim>\<open>os.system('ls')\<close> unsafe,
  whatever the parser is: the lexical gate fires first. The reason reports the pattern
  \<^verbatim>\<open>os\s*\.\s*system\<close>, which names the denylisted module \<^verbatim>\<open>os\<close>.
\<close>

theorem vet_os_snippet_unsafe:
  "is_safe_code p os_snippet =
     Inr (False, ''Patr'' @ o_acute @ ''n de c'' @ o_acute
            @ ''digo potencialmente peligroso detectado: ''
            @ ''os'' @ bslash @ ''s*'' @ bslash @ ''.'' @ bslash @ ''s*system'')
   \<and> ''os'' \<in> set DANGEROUS_MODULES"
  using os_snippet_verdict [of p] by (simp add: DANGEROUS_MODULES_def)

text \<open>Claim C9 with the example parser.\<close>

theorem vet_os_snippet_unsafe_witness:
  "is_safe_code example_parse os_snippet =
     Inr (False, ''Patr'' @ o_acute @ ''n de c'' @ o_acute
            @ ''digo potencialmente peligroso detectado: ''
            @ ''os'' @ bslash @ ''s*'' @ bslash @ ''.'' @ bslash @ ''s*system'')"
  using vet_os_snippet_unsafe [of example_parse] by simp

section \<open>Results of an execution\<close>




text \<open>
  In the handler \<^verbatim>\<open>str(e)\<close> is not protected: when it raises (the message of
  \<^verbatim>\<open>ValueError(10**5000)\<close>, for instance), what it raises leaves \<^verbatim>\<open>execute_code\<close>.
\<close>

lemma unprintable_fault_leaves_execute_code:
  assumes "is_safe_code p code = Inr (True, reason)"
    and "outcome (x (augmented code)) = Raised e"
    and "derives_from_Exception e"
    and "thrown_str e = Inl raised_by_str"
  shows "execute_code p x code = ([Exec (augmented code)], Inl (Escaped raised_by_str))"
  using execute_code_raised [where x = x, OF assms(1,2)] assms(3,4)
  by (simp add: handle_exception_def)

text \<open>
  The variables are rendered inside the \<^verbatim>\<open>try\<close>: when the run finishes and \<^verbatim>\<open>str\<close> of
  a value raises an instance of \<^verbatim>\<open>Exception\<close> (the value of \<^verbatim>\<open>x = 10**5000\<close>, for
  instance), the result has status \<^verbatim>\<open>error\<close>, after the record of success was logged.
\<close>

lemma rendering_fault_is_returned:
  assumes "is_safe_code p code = Inr (True, reason)"
    and "outcome (x (augmented code)) = Finished local_vars"
    and "rendered_variables local_vars = Inl e"
    and "derives_from_Exception e"
    and "thrown_str e = Inr msg"
  shows "execute_code p x code =
     ([Exec (augmented code), LogInfo (''C'' @ o_acute @ ''digo ejecutado correctamente''),
       LogError (''Error al ejecutar c'' @ o_acute @ ''digo: '' @ msg)],
      Inr \<lparr>status = ''error'',
           stdout = sanitize_code_output (written_stdout (x (augmented code))),
           stderr = sanitize_code_output (written_stderr (x (augmented code))),
           error = Some msg, variables = None, traceback = Some (format_exc e)\<rparr>)"
  using execute_code_unrenderable [where x = x, OF assms(1-3)] assms(4,5)
  by (simp add: handle_exception_def)





section \<open>Sanitisation of the output\<close>

lemma code_point_inj: "code_point c = code_point d \<Longrightarrow> c = d"
  by (simp add: code_point_def)

lemma code_point_10: "(code_point c = 10) = (c = CHR 0x0A)"
proof
  assume "code_point c = 10"
  then have "code_point c = code_point (CHR 0x0A)"
    by (simp add: code_point_def)
  then show "c = CHR 0x0A"
    by (rule code_point_inj)
qed (simp add: code_point_def)

lemma code_point_13: "(code_point c = 13) = (c = CHR 0x0D)"
proof
  assume "code_point c = 13"
  then have "code_point c = code_point (CHR 0x0D)"
    by (simp add: code_point_def)
  then show "c = CHR 0x0D"
    by (rule code_point_inj)
qed (simp add: code_point_def)

lemma stripped_by_code:
  "(\<not> is_stripped c) = (is_control c \<longrightarrow> code_point c = 10 \<or> code_point c = 13)"
  unfolding is_control_def is_stripped_def Let_def by arith

lemma not_stripped_iff:
  "(\<not> is_stripped c) = (is_control c \<longrightarrow> c = CHR 0x0A \<or> c = CHR 0x0D)"
  by (simp only: stripped_by_code code_point_10 code_point_13)

lemma marker_untouched:
  "filter (\<lambda>c. c \<noteq> CHR 0x09 \<and> \<not> is_stripped c) truncation_marker = truncation_marker"
  unfolding truncation_marker_def by code_simp

lemma sanitize_without_tabs:
  "filter (\<lambda>c. c \<noteq> CHR 0x09) (sanitize_code_output s)
     = filter (\<lambda>c. c \<noteq> CHR 0x09 \<and> \<not> is_stripped c)
         (if length s > 10000 then take 10000 s @ truncation_marker else s)"
  by (simp add: sanitize_code_output_def Let_def conj_commute)

lemma sanitize_not_stripped: "c \<in> set (sanitize_code_output s) \<Longrightarrow> \<not> is_stripped c"
  by (simp add: sanitize_code_output_def Let_def)

text \<open>
  Claim C4 says that the result holds no control character other than newline and tab.
  Counterexample: the carriage return (U+000D) is a control character, is neither of the
  two, and the sanitiser keeps it.
\<close>

theorem sanitize_keeps_carriage_return:
  "sanitize_code_output [CHR 0x0D] = [CHR 0x0D] \<and> is_control (CHR 0x0D)
   \<and> CHR 0x0D \<noteq> CHR 0x0A \<and> CHR 0x0D \<noteq> CHR 0x09"
  by (simp add: sanitize_code_output_def is_stripped_def is_control_def code_point_def)

text \<open>
  Claim C4, amended. For every output string, a string longer than 10,000 characters is
  cut to its first 10,000 characters followed by the truncation marker and a shorter one
  is kept whole; then the control characters other than newline, carriage return and tab
  are removed (also among the 10,000 kept characters; the marker has none) and, tabs left
  aside, no other character is. The result holds no control character other than
  newline, carriage return and tab. (The statement says nothing on whether a tab of the
  input remains.)
\<close>

theorem sanitize_code_output_result:
  "(length s > 10000 \<longrightarrow>
      filter (\<lambda>c. c \<noteq> CHR 0x09) (sanitize_code_output s)
        = filter (\<lambda>c. c \<noteq> CHR 0x09 \<and> (is_control c \<longrightarrow> c = CHR 0x0A \<or> c = CHR 0x0D))
            (take 10000 s)
          @ truncation_marker)
   \<and> (length s \<le> 10000 \<longrightarrow>
        filter (\<lambda>c. c \<noteq> CHR 0x09) (sanitize_code_output s)
          = filter (\<lambda>c. c \<noteq> CHR 0x09 \<and> (is_control c \<longrightarrow> c = CHR 0x0A \<or> c = CHR 0x0D)) s)
   \<and> (\<forall>c \<in> set (sanitize_code_output s).
         is_control c \<longrightarrow> c = CHR 0x0A \<or> c = CHR 0x0D \<or> c = CHR 0x09)"
proof (intro conjI impI ballI)
  assume long: "10000 < length s"
  have "filter (\<lambda>c. c \<noteq> CHR 0x09) (sanitize_code_output s)
      = filter (\<lambda>c. c \<noteq> CHR 0x09 \<and> \<not> is_stripped c) (take 10000 s) @ truncation_marker"
    using long by (simp add: sanitize_without_tabs marker_untouched)
  then show "filter (\<lambda>c. c \<noteq> CHR 0x09) (sanitize_code_output s)
      = filter (\<lambda>c. c \<noteq> CHR 0x09 \<and> (is_control c \<longrightarrow> c = CHR 0x0A \<or> c = CHR 0x0D))
          (take 10000 s)
        @ truncation_marker"
    by (simp only: not_stripped_iff)
next
  assume short: "length s \<le> 10000"
  have "filter (\<lambda>c. c \<noteq> CHR 0x09) (sanitize_code_output s)
      = filter (\<lambda>c. c \<noteq> CHR 0x09 \<and> \<not> is_stripped c) s"
    using short by (simp add: sanitize_without_tabs)
  then show "filter (\<lambda>c. c \<noteq> CHR 0x09) (sanitize_code_output s)
      = filter (\<lambda>c. c \<noteq> CHR 0x09 \<and> (is_control c \<longrightarrow> c = CHR 0x0A \<or> c = CHR 0x0D)) s"
    by (simp only: not_stripped_iff)
next
  fix c
  assume mem: "c \<in> set (sanitize_code_output s)" and ctl: "is_control c"
  from mem have "\<not> is_stripped c"
    by (rule sanitize_not_stripped)
  with ctl have "c = CHR 0x0A \<or> c = CHR 0x0D"
    by (simp only: not_stripped_iff)
  then show "c = CHR 0x0A \<or> c = CHR 0x0D \<or> c = CHR 0x09"
    by blast
qed

text \<open>
  The amended claim C4 at a stream of a bell character, a carriage return and 10,000
  letters: the cut keeps the first two and 9,998 letters; the bell is removed, the
  carriage return stays, and the marker follows.
\<close>

theorem sanitize_code_output_result_witness:
  "10000 < length ([CHR 0x07, CHR 0x0D] @ replicate 10000 (CHR ''a''))
   \<and> filter (\<lambda>c. c \<noteq> CHR 0x09)
         (sanitize_code_output ([CHR 0x07, CHR 0x0D] @ replicate 10000 (CHR ''a'')))
       = [CHR 0x0D] @ replicate 9998 (CHR ''a'') @ truncation_marker"
proof -
  have "is_control (CHR 0x07)" "is_control (CHR 0x0D)" "\<not> is_control (CHR ''a'')"
    by (simp_all add: is_control_def code_point_def)
  then show ?thesis
    using sanitize_code_output_result [of "[CHR 0x07, CHR 0x0D] @ replicate 10000 (CHR ''a'')"]
    by simp
qed

text \<open>
  The class that the sanitiser removes includes the tab (\<^verbatim>\<open>\x00-\x09\<close>), although the
  comment of the program says that tabs are kept.
\<close>

lemma sanitize_removes_tab: "sanitize_code_output [CHR ''a'', CHR 0x09, CHR ''b''] = ''ab''"
  by code_simp

section \<open>The fallback of the code generator\<close>

text \<open>
  A search in a text that ends with characters no word of the pattern can end with has the
  result of the search in the text without them.
\<close>

lemma nullable_seq: "nullable (seq r s) = (nullable r \<and> nullable s)"
  by (cases r) auto

lemma nullable_alt: "nullable (alt r s) = (nullable r \<or> nullable s)"
  by (cases r; cases s) auto

lemma ends_outside_seq:
  "ends_outside cs s \<Longrightarrow> (nullable s \<Longrightarrow> ends_outside cs r) \<Longrightarrow> ends_outside cs (seq r s)"
  by (cases r) auto

lemma ends_outside_alt:
  "ends_outside cs r \<Longrightarrow> ends_outside cs s \<Longrightarrow> ends_outside cs (alt r s)"
  by (cases r; cases s) auto

lemma ends_outside_second: "ends_outside cs (Seq r s) \<Longrightarrow> ends_outside cs s"
  by (simp split: if_splits)

lemma ends_outside_deriv: "ends_outside cs r \<Longrightarrow> ends_outside cs (deriv c r)"
proof (induction r)
  case (Seq r s)
  have s: "ends_outside cs s"
    using Seq.prems by (rule ends_outside_second)
  have r: "nullable s \<Longrightarrow> ends_outside cs r"
    using Seq.prems by simp
  have left: "ends_outside cs (seq (deriv c r) s)"
    using s r Seq.IH(1) by (intro ends_outside_seq) auto
  show ?case
    using left Seq.IH(2) [OF s] by (simp add: ends_outside_alt)
next
  case (Alt r s)
  then show ?case by (simp add: ends_outside_alt)
next
  case (Star r)
  then show ?case by (simp add: ends_outside_seq)
qed simp_all

lemma deriv_not_nullable:
  "ends_outside cs r \<Longrightarrow> c \<in> set cs \<Longrightarrow> \<not> nullable (deriv c r)"
proof (induction r)
  case (Seq r s)
  have s: "ends_outside cs s"
    using Seq.prems(1) by (rule ends_outside_second)
  have r: "nullable s \<Longrightarrow> ends_outside cs r"
    using Seq.prems(1) by simp
  have "\<not> nullable (deriv c s)"
    using Seq.IH(2) [OF s Seq.prems(2)] .
  moreover have "\<not> (nullable (deriv c r) \<and> nullable s)"
    using Seq.IH(1) r Seq.prems(2) by blast
  ultimately show ?case
    by (simp add: nullable_alt nullable_seq)
next
  case (Alt r s)
  then show ?case by (simp add: nullable_alt)
next
  case (Star r)
  then show ?case by (simp add: nullable_seq)
qed auto

lemma match_prefix_bad_suffix:
  "ends_outside cs r \<Longrightarrow> set suf \<subseteq> set cs \<Longrightarrow> match_prefix r suf = nullable r"
proof (induction suf arbitrary: r)
  case Nil
  then show ?case by simp
next
  case (Cons c rest)
  have d: "ends_outside cs (deriv c r)"
    using Cons.prems(1) by (rule ends_outside_deriv)
  have "match_prefix (deriv c r) rest = nullable (deriv c r)"
    using Cons.IH [OF d] Cons.prems(2) by simp
  moreover have "\<not> nullable (deriv c r)"
    using Cons.prems by (intro deriv_not_nullable [of cs]) auto
  ultimately show ?case by simp
qed

lemma match_prefix_append_suffix:
  "ends_outside cs r \<Longrightarrow> set suf \<subseteq> set cs \<Longrightarrow> match_prefix r (xs @ suf) = match_prefix r xs"
proof (induction xs arbitrary: r)
  case Nil
  then show ?case by (simp add: match_prefix_bad_suffix)
next
  case (Cons x xs)
  have "match_prefix (deriv x r) (xs @ suf) = match_prefix (deriv x r) xs"
    using Cons.IH [OF ends_outside_deriv [OF Cons.prems(1)] Cons.prems(2)] .
  then show ?case by simp
qed

lemma re_search_bad_suffix:
  "ends_outside cs r \<Longrightarrow> set suf \<subseteq> set cs \<Longrightarrow> re_search r suf = nullable r"
proof (induction suf)
  case Nil
  then show ?case by simp
next
  case (Cons c rest)
  have "match_prefix r (c # rest) = nullable r"
    using Cons.prems by (rule match_prefix_bad_suffix)
  moreover have "re_search r rest = nullable r"
    using Cons by simp
  ultimately show ?case by simp
qed

lemma re_search_append_suffix:
  "ends_outside cs r \<Longrightarrow> set suf \<subseteq> set cs \<Longrightarrow> re_search r (xs @ suf) = re_search r xs"
proof (induction xs)
  case Nil
  then show ?case by (simp add: re_search_bad_suffix)
next
  case (Cons x xs)
  have "match_prefix r ((x # xs) @ suf) = match_prefix r (x # xs)"
    using Cons.prems by (rule match_prefix_append_suffix)
  moreover have "re_search r (xs @ suf) = re_search r xs"
    using Cons by simp
  ultimately show ?case by simp
qed

lemma first_pattern_append_suffix:
  "\<forall>(pattern, r) \<in> set ps. ends_outside cs r \<Longrightarrow> set suf \<subseteq> set cs \<Longrightarrow>
   first_pattern ps (xs @ suf) = first_pattern ps xs"
  by (induction ps) (auto simp: re_search_append_suffix)

lemma patterns_end_outside:
  "\<forall>(pattern, r) \<in> set DANGEROUS_PATTERNS. ends_outside [CHR 0x27, CHR '')''] r"
  by (simp add: DANGEROUS_PATTERNS_def DANGEROUS_MODULES_def Plus_def)

text \<open>
  The first gate on the fallback snippet: no match starts in the fixed text before the
  message (by evaluation), and none ends in the quote and the parenthesis after it.
\<close>

lemma fallback_prefix:
  "first_pattern DANGEROUS_PATTERNS (fallback_code m)
     = first_pattern DANGEROUS_PATTERNS (m @ squote @ '')'')"
  by (simp add: fallback_code_def DANGEROUS_PATTERNS_def DANGEROUS_MODULES_def Plus_def
        isspace_def code_point_def)

lemma fallback_lexical_gate:
  "first_pattern DANGEROUS_PATTERNS (fallback_code m) = first_pattern DANGEROUS_PATTERNS m"
proof -
  have "first_pattern DANGEROUS_PATTERNS (m @ [CHR 0x27, CHR '')''])
      = first_pattern DANGEROUS_PATTERNS m"
    using patterns_end_outside by (rule first_pattern_append_suffix) simp
  then show ?thesis
    by (simp add: fallback_prefix)
qed

text \<open>
  Claim C5 says that the fallback snippet prints a fixed message and is judged safe for
  every exception message. Counterexample: the snippet embeds the message, and for the
  message of a \<^verbatim>\<open>TypeError\<close> that names \<^verbatim>\<open>__init__\<close> the lexical gate rejects it
  (before any parser is consulted).
\<close>

theorem fallback_with_dunder_message_unsafe:
  "snd (generate_code failing_llm ''calcula 2+2'')
     = fallback_code (''Client.__init__() got an unexpected keyword argument '' @ squote
                        @ ''proxies'' @ squote)
   \<and> is_safe_code example_parse (snd (generate_code failing_llm ''calcula 2+2''))
       = Inr (False, ''Patr'' @ o_acute @ ''n de c'' @ o_acute
                @ ''digo potencialmente peligroso detectado: __[a-zA-Z]+__'')"
proof -
  have a: "snd (generate_code failing_llm ''calcula 2+2'')
     = fallback_code (''Client.__init__() got an unexpected keyword argument '' @ squote
                        @ ''proxies'' @ squote)"
    by (simp add: generate_code_def failing_llm_def)
  have b: "first_pattern DANGEROUS_PATTERNS
             (fallback_code (''Client.__init__() got an unexpected keyword argument '' @ squote
                        @ ''proxies'' @ squote)) = Some ''__[a-zA-Z]+__''"
    by code_simp
  show ?thesis
    unfolding a using b by (simp add: is_safe_code_def)
qed

text \<open>
  Claim C5, amended: for every generation failure, \<^verbatim>\<open>generate_code\<close> returns the fallback
  snippet, a comment line and one \<^verbatim>\<open>print\<close> of a text that ends with the message of the
  exception. The lexical gate of the validator treats the snippet as it treats the message
  alone: the snippet is judged unsafe, with the pattern as reason, whenever the message
  matches a denylisted pattern; it is judged safe whenever the message matches none and
  the parser reads the snippet as the single call of \<^verbatim>\<open>print\<close>.
\<close>

theorem generate_code_fallback:
  assumes "invoke (code_generation_prompt query) = Inl e"
  shows "snd (generate_code invoke query) = fallback_code (exc_str e)
     \<and> first_pattern DANGEROUS_PATTERNS (snd (generate_code invoke query))
         = first_pattern DANGEROUS_PATTERNS (exc_str e)
     \<and> (\<forall>pattern. first_pattern DANGEROUS_PATTERNS (exc_str e) = Some pattern \<longrightarrow>
          is_safe_code p (snd (generate_code invoke query))
            = Inr (False, ''Patr'' @ o_acute @ ''n de c'' @ o_acute
                     @ ''digo potencialmente peligroso detectado: '' @ pattern))
     \<and> (first_pattern DANGEROUS_PATTERNS (exc_str e) = None
          \<and> p (fallback_code (exc_str e)) = Parsed print_call_tree
        \<longrightarrow> is_safe_code p (snd (generate_code invoke query)) = Inr (True, []))"
proof -
  have code: "snd (generate_code invoke query) = fallback_code (exc_str e)"
    using assms by (simp add: generate_code_def)
  show ?thesis
    unfolding code
    by (simp add: is_safe_code_def fallback_lexical_gate fallback_walk)
qed

text \<open>
  The amended claim C5 for a timeout of the model call: the message matches no pattern,
  and the snippet is judged safe.
\<close>

theorem generate_code_fallback_witness:
  "timeout_llm (code_generation_prompt ''calcula 2+2'')
     = Inl \<lparr>exc_type = ''APITimeoutError'', exc_str = ''timeout'', exc_stack = []\<rparr>
   \<and> first_pattern DANGEROUS_PATTERNS ''timeout'' = None
   \<and> snd (generate_code timeout_llm ''calcula 2+2'') = fallback_code ''timeout''
   \<and> is_safe_code example_parse (snd (generate_code timeout_llm ''calcula 2+2''))
       = Inr (True, [])"
proof -
  have a: "timeout_llm (code_generation_prompt ''calcula 2+2'')
     = Inl \<lparr>exc_type = ''APITimeoutError'', exc_str = ''timeout'', exc_stack = []\<rparr>"
    by (simp add: timeout_llm_def)
  have b: "first_pattern DANGEROUS_PATTERNS ''timeout'' = None"
    by code_simp
  have c: "example_parse (fallback_code ''timeout'') = Parsed print_call_tree"
    by code_simp
  note t = generate_code_fallback [where invoke = timeout_llm and p = example_parse,
      OF a, simplified]
  have r: "snd (generate_code timeout_llm ''calcula 2+2'') = fallback_code ''timeout''"
    using t by (elim conjE)
  have "first_pattern DANGEROUS_PATTERNS ''timeout'' = None
          \<and> example_parse (fallback_code ''timeout'') = Parsed print_call_tree
        \<longrightarrow> is_safe_code example_parse (snd (generate_code timeout_llm ''calcula 2+2''))
              = Inr (True, [])"
    using t by (elim conjE)
  then have "is_safe_code example_parse (snd (generate_code timeout_llm ''calcula 2+2''))
      = Inr (True, [])"
    using b c by (elim impE) (intro conjI)
  with a b r show ?thesis
    by (intro conjI)
qed

section \<open>The conversation memory\<close>

text \<open>
  Claim C2 says that every history of length \<open>n > 2\<close> whose token estimate exceeds the
  ceiling is replaced by a summary entry and the recent entries, \<open>1 + min 4 n\<close> entries
  with a system entry first. Counterexample: a fourth message is added to three long
  entries; the estimate (2250) exceeds the ceiling (2000), and the history is left as it
  is: four entries, the first of role \<^verbatim>\<open>user\<close>.
\<close>

theorem compaction_of_four_entries_is_noop:
  "2 < length (three_long_entries @ [short_entry ''assistant''])
   \<and> max_memory_tokens default_settings
         < total_chars (three_long_entries @ [short_entry ''assistant''])
             div char_to_token_ratio default_settings
   \<and> history (add_message default_settings summarizing_llm ''2025-01-01T10:05:00''
         ''2025-01-01T10:06:00'' ''assistant'' ''ok'' three_long_entries)
       = three_long_entries @ [short_entry ''assistant'']
   \<and> length (history (add_message default_settings summarizing_llm ''2025-01-01T10:05:00''
         ''2025-01-01T10:06:00'' ''assistant'' ''ok'' three_long_entries))
       \<noteq> 1 + min 4 (length (three_long_entries @ [short_entry ''assistant'']))
   \<and> role (hd (history (add_message default_settings summarizing_llm ''2025-01-01T10:05:00''
         ''2025-01-01T10:06:00'' ''assistant'' ''ok'' three_long_entries)))
       \<noteq> ''system''"
  by (simp add: add_message_def check_and_summarize_def summarize_memory_def
        history_to_summarize_def Let_def default_settings_def total_chars_def
        three_long_entries_def long_entry_def short_entry_def)

text \<open>
  Claim C2, amended. Let \<open>h\<close> be the history with the new message appended, let its token
  estimate exceed the ceiling and let the summariser answer. If \<open>h\<close> has at least 5
  entries, \<^verbatim>\<open>add_message\<close> replaces it by one new system entry with the summary followed
  by the last 4 entries of \<open>h\<close>: \<open>1 + min 4 (length h)\<close> entries, the first of role
  \<^verbatim>\<open>system\<close>. If \<open>h\<close> has 4 entries it is left as it is; if it has 3, the summary entry
  alone replaces it.
\<close>

theorem compaction_shape:
  assumes "h = h0 @ [\<lparr>role = r, content = c, timestamp = t_msg\<rparr>]"
    and "char_to_token_ratio cfg \<noteq> 0"
    and "max_memory_tokens cfg < total_chars h div char_to_token_ratio cfg"
    and "invoke (summary_prompt (history_text_of (history_to_summarize h))) = Inr summary"
  shows "(5 \<le> length h \<longrightarrow>
            history (add_message cfg invoke t_msg now r c h0)
              = summary_entry summary now # drop (length h - 4) h
          \<and> length (history (add_message cfg invoke t_msg now r c h0)) = 1 + min 4 (length h)
          \<and> role (hd (history (add_message cfg invoke t_msg now r c h0))) = ''system'')
       \<and> (length h = 4 \<longrightarrow> history (add_message cfg invoke t_msg now r c h0) = h)
       \<and> (length h = 3 \<longrightarrow>
            history (add_message cfg invoke t_msg now r c h0) = [summary_entry summary now])"
proof -
  have step: "add_message cfg invoke t_msg now r c h0 = check_and_summarize cfg invoke now h"
    using assms(1) by (simp add: add_message_def)
  have five: "5 \<le> length h \<Longrightarrow>
      history (check_and_summarize cfg invoke now h)
        = summary_entry summary now # drop (length h - 4) h"
    using assms(2-4)
    by (auto simp: check_and_summarize_def summarize_memory_def history_to_summarize_def
          recent_history_def Let_def)
  have four: "length h = 4 \<Longrightarrow> history (check_and_summarize cfg invoke now h) = h"
    using assms(2-3)
    by (simp add: check_and_summarize_def summarize_memory_def history_to_summarize_def Let_def)
  have three: "length h = 3 \<Longrightarrow>
      history (check_and_summarize cfg invoke now h) = [summary_entry summary now]"
    using assms(2-4)
    by (auto simp: check_and_summarize_def summarize_memory_def history_to_summarize_def
          recent_history_def Let_def)
  show ?thesis
    using five four three by (simp add: step summary_entry_def)
qed

text \<open>The amended claim C2 when a fifth message is added to four long entries.\<close>

theorem compaction_shape_witness:
  "5 \<le> length (four_long_entries @ [short_entry ''user''])
   \<and> max_memory_tokens default_settings
         < total_chars (four_long_entries @ [short_entry ''user''])
             div char_to_token_ratio default_settings
   \<and> history (add_message default_settings summarizing_llm ''2025-01-01T10:05:00''
         ''2025-01-01T10:06:00'' ''user'' ''ok'' four_long_entries)
       = summary_entry ''El usuario pide tres informes.'' ''2025-01-01T10:06:00''
           # [long_entry ''assistant'', long_entry ''user'', long_entry ''assistant'',
              short_entry ''user'']"
proof -
  have a: "four_long_entries @ [short_entry ''user'']
             = four_long_entries
                 @ [\<lparr>role = ''user'', content = ''ok'', timestamp = ''2025-01-01T10:05:00''\<rparr>]"
    by (simp add: short_entry_def)
  have b: "char_to_token_ratio default_settings \<noteq> 0"
    by (simp add: default_settings_def)
  have c: "max_memory_tokens default_settings
             < total_chars (four_long_entries @ [short_entry ''user''])
                 div char_to_token_ratio default_settings"
    by (simp add: default_settings_def total_chars_def four_long_entries_def long_entry_def
          short_entry_def)
  have d: "summarizing_llm (summary_prompt (history_text_of (history_to_summarize
             (four_long_entries @ [short_entry ''user''])))) = Inr ''El usuario pide tres informes.''"
    by (simp add: summarizing_llm_def)
  have e: "length (four_long_entries @ [short_entry ''user'']) = 5"
    by (simp add: four_long_entries_def)
  show ?thesis
    using compaction_shape [where invoke = summarizing_llm and now = "''2025-01-01T10:06:00''",
        OF a b c d] c e
    by (simp add: four_long_entries_def)
qed

text \<open>
  Claim C6: compaction is atomic on failure. For every history for which the summariser
  is called and raises, \<^verbatim>\<open>_summarize_memory\<close> leaves the history as it was, lets no
  exception out, and its events are the one call of the summariser followed by the one
  error record: the exception is caught and logged, and the call is not retried. The
  history is also unchanged after the whole trigger evaluation.
\<close>

theorem summarization_failure_keeps_history:
  assumes "history_to_summarize h \<noteq> []"
    and "invoke (summary_prompt (history_text_of (history_to_summarize h))) = Inl e"
  shows "summarize_memory invoke now h =
           \<lparr>history = h,
            events = [Invoke (summary_prompt (history_text_of (history_to_summarize h))),
                      LogError (''Error al resumir la memoria: '' @ exc_str e)],
            raised = None\<rparr>
         \<and> history (check_and_summarize cfg invoke now h) = h"
  using assms by (simp add: summarize_memory_def check_and_summarize_def Let_def)

text \<open>Claim C6 for three long entries and a summariser that times out.\<close>

theorem summarization_failure_keeps_history_witness:
  "history_to_summarize three_long_entries \<noteq> []
   \<and> summarize_memory timeout_llm ''2025-01-01T10:06:00'' three_long_entries =
       \<lparr>history = three_long_entries,
        events = [Invoke (summary_prompt (history_text_of three_long_entries)),
                  LogError ''Error al resumir la memoria: timeout''],
        raised = None\<rparr>
   \<and> history (check_and_summarize default_settings timeout_llm ''2025-01-01T10:06:00''
         three_long_entries) = three_long_entries"
proof -
  have a: "history_to_summarize three_long_entries = three_long_entries"
    by (simp add: history_to_summarize_def three_long_entries_def)
  have b: "three_long_entries \<noteq> []"
    by (simp add: three_long_entries_def)
  have c: "timeout_llm (summary_prompt (history_text_of (history_to_summarize three_long_entries)))
             = Inl \<lparr>exc_type = ''APITimeoutError'', exc_str = ''timeout'', exc_stack = []\<rparr>"
    by (simp add: timeout_llm_def)
  show ?thesis
    using summarization_failure_keeps_history
      [of three_long_entries timeout_llm _ "''2025-01-01T10:06:00''" default_settings, OF _ c]
      a b
    by simp
qed

text \<open>
  Claim C8: the memory is never partially mutated by a turn. For every prior history,
  after \<^verbatim>\<open>add_message\<close> the history is either the prior history with the new entry
  appended at the end, or one summary entry followed by the preserved recent entries of
  that extended history; no other shape is reachable.
\<close>

theorem add_message_history_shape:
  "history (add_message cfg invoke t_msg t_sum r c h)
     = h @ [\<lparr>role = r, content = c, timestamp = t_msg\<rparr>]
   \<or> (\<exists>summary. history (add_message cfg invoke t_msg t_sum r c h)
         = summary_entry summary t_sum
             # recent_history (h @ [\<lparr>role = r, content = c, timestamp = t_msg\<rparr>]))"
  by (auto simp: add_message_def check_and_summarize_def summarize_memory_def Let_def
           split: sum.splits)

text \<open>Claim C8 when a fifth message is added to four long entries.\<close>

theorem add_message_history_shape_witness:
  "history (add_message default_settings summarizing_llm ''2025-01-01T10:05:00''
      ''2025-01-01T10:06:00'' ''user'' ''ok'' four_long_entries)
     = four_long_entries @ [short_entry ''user'']
   \<or> (\<exists>summary. history (add_message default_settings summarizing_llm ''2025-01-01T10:05:00''
          ''2025-01-01T10:06:00'' ''user'' ''ok'' four_long_entries)
         = summary_entry summary ''2025-01-01T10:06:00''
             # recent_history (four_long_entries @ [short_entry ''user'']))"
  using add_message_history_shape [of default_settings summarizing_llm "''2025-01-01T10:05:00''"
      "''2025-01-01T10:06:00''" "''user''" "''ok''" four_long_entries]
  by (simp add: short_entry_def)

end
